theory Spec2Isabelle
  imports Main
begin

section \<open>The Reacher API gateway (src/index.js)\<close>

text \<open>
  The gateway is an Express application: a list of layers (\<^verbatim>\<open>app.use\<close>,
  \<^verbatim>\<open>app.get\<close>) that a request walks through in registration order. A handler either
  writes a response and stops, calls \<^verbatim>\<open>next()\<close>, or throws. The handlers of
  \<^verbatim>\<open>src/index.js\<close> are embedded one by one below, in the order the file registers them.
  What the file takes from its libraries is modelled at the library's interface:
  \<^verbatim>\<open>jwt.verify\<close>, the network behind the proxy, the clock and \<^verbatim>\<open>process.env\<close> are
  parameters (the record \<open>world\<close>); Express's path matching, the \<^verbatim>\<open>cors()\<close> middleware
  with its default options and the \<^verbatim>\<open>pathRewrite\<close> and \<^verbatim>\<open>onError\<close> options of
  \<^verbatim>\<open>http-proxy-middleware\<close> (the 2.x interface the file is written against) follow the
  documented behaviour of those packages. Request bodies, response headers and console
  output are not part of the model.

  The repository holds a second copy of the gateway (a file whose name is not known) that
  differs in three places: it installs the JSON and urlencoded body parsers, it gives every
  proxy an \<^verbatim>\<open>onError\<close> callback, and it has no root route. The properties below are about
  \<^verbatim>\<open>src/index.js\<close>.
\<close>

subsection \<open>JavaScript values, requests and replies\<close>

datatype jsval =
    JUndefined
  | JNull
  | JBool bool
  | JNum int
  | JStr string
  | JArr "jsval list"
  | JObj "(string \<times> jsval) list"

text \<open>
  \<^verbatim>\<open>req.method\<close>, as Node's parser delivers it: one of a fixed list of upper-case names.
  \<open>OTHER\<close> stands for the names not listed here.
\<close>

datatype http_method = GET | HEAD | POST | PUT | PATCH | DELETE | OPTIONS | OTHER string

text \<open>
  What \<^verbatim>\<open>jwt.verify\<close> returns on success is the decoded payload: an object when the
  payload is JSON, the raw string otherwise. On failure it throws one of three errors.
\<close>

datatype payload = Claims "(string \<times> jsval) list" | RawPayload string

datatype jwt_error = JsonWebTokenError string | TokenExpiredError | NotBeforeError

type_synonym verifier = "string \<Rightarrow> string \<Rightarrow> jwt_error + payload"

text \<open>
  The request object. \<open>url\<close> is the request target as the client sent it
  (\<^verbatim>\<open>req.originalUrl\<close>: a path starting with a slash, and the query string if there is
  one). \<open>headers\<close> is \<^verbatim>\<open>req.headers\<close>, which Node keys by lower-cased header name;
  incoming values are strings, but \<^verbatim>\<open>verifyToken\<close> stores arbitrary claim values there.
  \<open>user\<close> is \<^verbatim>\<open>req.user\<close>, undefined (\<open>None\<close>) on arrival.
\<close>

record request =
  req_method :: http_method
  url :: string
  headers :: "string \<rightharpoonup> jsval"
  user :: "payload option"

datatype proxy_error = ECONNREFUSED | ETIMEDOUT | ENOTFOUND | ECONNRESET | EOTHER string

record upstream_response =
  up_status :: nat
  up_headers :: "(string \<times> string) list"
  up_body :: string

text \<open>
  The request the proxy middleware hands to the HTTP client for the upstream: the method,
  \<^verbatim>\<open>req.url\<close> after \<^verbatim>\<open>pathRewrite\<close>, and the header object. What the client
  library then does with it (joining the url to the target's base path, refusing a header
  whose value is \<^verbatim>\<open>undefined\<close>) is beyond the model.
\<close>

record outgoing =
  out_method :: http_method
  out_url :: string
  out_headers :: "string \<rightharpoonup> jsval"

text \<open>
  What the client receives: a JSON reply written by a handler of this file
  (\<^verbatim>\<open>res.status(n).json(v)\<close>; to a HEAD request Express sends its status and headers
  without the body), the empty reply of the CORS middleware to a preflight, the upstream's
  response relayed by the proxy, the reply of the proxy library's built-in error handler
  (used when no \<^verbatim>\<open>onError\<close> option is given; this file does not determine it), or
  Express's own final handler (not reached by this application).
\<close>

datatype reply =
    Json nat jsval
  | Preflight nat
  | Relay upstream_response
  | ProxyDefaultError proxy_error
  | ExpressFinal bool

datatype control = CallsNext | Ends | Throws

text \<open>
  The effect of one handler on one request: the request object as the handler leaves it,
  the replies it wrote, the requests it sent (or tried to send) upstream, each with its
  target, and how it returned control.
\<close>

record stage =
  req_out :: request
  sent :: "reply list"
  proxied :: "(string \<times> outgoing) list"
  flow :: control

type_synonym handler = "request \<Rightarrow> stage"

text \<open>
  The environment of the process: \<^verbatim>\<open>process.env\<close>, the behaviour of \<^verbatim>\<open>jwt.verify\<close> on a
  token and a secret at the time of the request (the decoded payload, or the error it
  throws), the answer of the network to a request for a target (the upstream's response,
  or the connection error), and the current time as \<^verbatim>\<open>new Date().toISOString()\<close> prints it.
\<close>

record world =
  process_env :: "string \<rightharpoonup> string"
  jwt_verify :: verifier
  connect :: "string \<Rightarrow> outgoing \<Rightarrow> proxy_error + upstream_response"
  now :: string

subsection \<open>Configuration\<close>

text \<open>\<^verbatim>\<open>process.env.X || d\<close>: an unset or empty variable gives the default.\<close>

definition env_or :: "(string \<rightharpoonup> string) \<Rightarrow> string \<Rightarrow> string \<Rightarrow> string" where
  "env_or env k d = (case env k of None \<Rightarrow> d | Some v \<Rightarrow> if v = [] then d else v)"

definition JWT_SECRET :: "(string \<rightharpoonup> string) \<Rightarrow> string" where
  "JWT_SECRET env = env_or env ''JWT_SECRET'' ''dev-secret-key''"

datatype service = AUTH | USER | PRODUCT | PROVIDER | TRUST | MESSAGE | NOTIFICATION

fun SERVICES :: "(string \<rightharpoonup> string) \<Rightarrow> service \<Rightarrow> string" where
  "SERVICES env AUTH = env_or env ''AUTH_SERVICE_URL'' ''http://localhost:5001''"
| "SERVICES env USER = env_or env ''USER_SERVICE_URL'' ''http://localhost:5002''"
| "SERVICES env PRODUCT = env_or env ''PRODUCT_SERVICE_URL'' ''http://localhost:5003''"
| "SERVICES env PROVIDER = env_or env ''PROVIDER_SERVICE_URL'' ''http://localhost:5004''"
| "SERVICES env TRUST = env_or env ''TRUST_SERVICE_URL'' ''http://localhost:5005''"
| "SERVICES env MESSAGE = env_or env ''MESSAGE_SERVICE_URL'' ''http://localhost:5006''"
| "SERVICES env NOTIFICATION = env_or env ''NOTIFICATION_SERVICE_URL'' ''http://localhost:5007''"

subsection \<open>verifyToken\<close>

text \<open>
  \<^verbatim>\<open>s.split(' ')\<close>: the fields between single spaces; two adjacent spaces enclose an
  empty field, and the empty string splits into one empty field.
\<close>

fun split :: "char \<Rightarrow> string \<Rightarrow> string list" where
  "split sep [] = [[]]"
| "split sep (c # cs) =
     (if c = sep then [] # split sep cs
      else (case split sep cs of [] \<Rightarrow> [[c]] | w # ws \<Rightarrow> (c # w) # ws))"

text \<open>\<^verbatim>\<open>xs[i]\<close>: \<^verbatim>\<open>undefined\<close> (here \<open>None\<close>) out of range.\<close>

definition at_index :: "'a list \<Rightarrow> nat \<Rightarrow> 'a option" where
  "at_index xs i = (if i < length xs then Some (xs ! i) else None)"

datatype js_exception = TypeError

text \<open>
  \<^verbatim>\<open>req.headers.authorization?.split(' ')[1]\<close>. The optional chaining gives
  \<^verbatim>\<open>undefined\<close> for an absent (or null) header; a string is split; any other value has
  no \<^verbatim>\<open>split\<close> method and the call throws (Node never delivers such a header).
\<close>

definition token :: "request \<Rightarrow> js_exception + string option" where
  "token req =
     (case headers req ''authorization'' of
        None \<Rightarrow> Inr None
      | Some JUndefined \<Rightarrow> Inr None
      | Some JNull \<Rightarrow> Inr None
      | Some (JStr s) \<Rightarrow> Inr (at_index (split CHR '' '' s) 1)
      | Some _ \<Rightarrow> Inl TypeError)"

text \<open>\<^verbatim>\<open>decoded.userId\<close>, \<^verbatim>\<open>decoded.email\<close>: the property, or \<^verbatim>\<open>undefined\<close>.\<close>

definition claim :: "payload \<Rightarrow> string \<Rightarrow> jsval" where
  "claim decoded k =
     (case decoded of
        Claims kvs \<Rightarrow> (case map_of kvs k of None \<Rightarrow> JUndefined | Some v \<Rightarrow> v)
      | RawPayload s \<Rightarrow> JUndefined)"

definition failure :: "string \<Rightarrow> jsval" where
  "failure msg = JObj [(''success'', JBool False), (''error'', JStr msg)]"

definition respond :: "request \<Rightarrow> reply \<Rightarrow> stage" where
  "respond req r = \<lparr>req_out = req, sent = [r], proxied = [], flow = Ends\<rparr>"

definition call_next :: "request \<Rightarrow> stage" where
  "call_next req = \<lparr>req_out = req, sent = [], proxied = [], flow = CallsNext\<rparr>"

definition throw :: "request \<Rightarrow> stage" where
  "throw req = \<lparr>req_out = req, sent = [], proxied = [], flow = Throws\<rparr>"

definition verifyToken :: "verifier \<Rightarrow> string \<Rightarrow> handler" where
  "verifyToken verify secret req =
     (case token req of
        Inl e \<Rightarrow> throw req
      | Inr None \<Rightarrow> respond req (Json 401 (failure ''No token provided''))
      | Inr (Some t) \<Rightarrow>
          if t = [] then respond req (Json 401 (failure ''No token provided''))
          else
            (case verify t secret of
               Inl err \<Rightarrow> respond req (Json 403 (failure ''Invalid or expired token''))
             | Inr decoded \<Rightarrow>
                 call_next
                   (req\<lparr>user := Some decoded,
                        headers := (headers req)
                          (''x-user-id'' \<mapsto> claim decoded ''userId'',
                           ''x-user-email'' \<mapsto> claim decoded ''email'')\<rparr>)))"

subsection \<open>The other handlers of index.js\<close>

text \<open>
  \<^verbatim>\<open>cors()\<close> with its default options answers every OPTIONS request itself (status 204,
  no body, \<^verbatim>\<open>preflightContinue: false\<close>) and passes every other request on after adding
  response headers.
\<close>

definition cors :: handler where
  "cors req = (if req_method req = OPTIONS then respond req (Preflight 204) else call_next req)"

definition requestLogger :: handler where
  "requestLogger req = call_next req"

definition health :: "string \<Rightarrow> handler" where
  "health timestamp req =
     respond req
       (Json 200 (JObj [(''status'', JStr ''ok''), (''service'', JStr ''gateway''),
                        (''timestamp'', JStr timestamp)]))"

definition root :: handler where
  "root req =
     respond req
       (Json 200 (JObj [(''status'', JStr ''ok''), (''service'', JStr ''gateway''),
                        (''routes'', JArr [JStr ''/api/health'', JStr ''/api/auth'',
                                          JStr ''/api/users'', JStr ''/api/products''])]))"

definition notFound :: handler where
  "notFound req = respond req (Json 404 (failure ''Route not found''))"

definition errorHandler :: handler where
  "errorHandler req = respond req (Json 500 (failure ''Internal server error''))"

subsection \<open>The proxy middleware\<close>

text \<open>
  The options the file passes to \<^verbatim>\<open>createProxyMiddleware\<close>. A rule
  \<^verbatim>\<open>{ '^/api/users': '' }\<close> of \<^verbatim>\<open>pathRewrite\<close> is the pair of the literal after the
  anchor and the replacement. \<^verbatim>\<open>onError\<close> is optional.
\<close>

record proxy_options =
  target :: string
  changeOrigin :: bool
  pathRewrite :: "string \<times> string"
  onError :: "(proxy_error \<Rightarrow> request \<Rightarrow> reply) option"

text \<open>
  \<^verbatim>\<open>path.replace(new RegExp('^' + literal), replacement)\<close>: the regular expression is
  case-sensitive and anchored, so it rewrites a path that starts with the literal as it is
  spelled and leaves every other path alone.
\<close>

definition rewritePath :: "string \<times> string \<Rightarrow> string \<Rightarrow> string" where
  "rewritePath rule path =
     (case rule of (literal, replacement) \<Rightarrow>
        if take (length literal) path = literal
        then replacement @ drop (length literal) path
        else path)"

text \<open>The host (with port) of a target URL, which \<^verbatim>\<open>changeOrigin\<close> puts in the Host header.\<close>

definition url_host :: "string \<Rightarrow> string" where
  "url_host u =
     takeWhile (\<lambda>c. c \<noteq> CHR ''/'')
       (if take 7 u = ''http://'' then drop 7 u
        else if take 8 u = ''https://'' then drop 8 u
        else u)"

text \<open>
  The proxy middleware builds the outgoing request from the request object (method,
  rewritten \<^verbatim>\<open>originalUrl\<close>, \<^verbatim>\<open>req.headers\<close>) and sends it to the target. When the
  upstream answers, its response is relayed. When it cannot be reached, the \<^verbatim>\<open>onError\<close>
  callback writes the reply if the options have one; otherwise the library's built-in
  handler does. The \<^verbatim>\<open>onProxyReq\<close> and \<^verbatim>\<open>onProxyRes\<close> callbacks of the auth proxy log,
  and \<^verbatim>\<open>onProxyReq\<close> re-sends a body that was parsed into \<^verbatim>\<open>req.body\<close>, which nothing
  in this file does; they do not touch the method, the path or the headers modelled here.
\<close>

definition createProxyMiddleware ::
  "(string \<Rightarrow> outgoing \<Rightarrow> proxy_error + upstream_response) \<Rightarrow> proxy_options \<Rightarrow> handler" where
  "createProxyMiddleware net opts req =
     (let out = \<lparr>out_method = req_method req,
                 out_url = rewritePath (pathRewrite opts) (url req),
                 out_headers =
                   (if changeOrigin opts
                    then (headers req)(''host'' \<mapsto> JStr (url_host (target opts)))
                    else headers req)\<rparr>
      in case net (target opts) out of
           Inr response \<Rightarrow>
             \<lparr>req_out = req, sent = [Relay response],
              proxied = [(target opts, out)], flow = Ends\<rparr>
         | Inl err \<Rightarrow>
             \<lparr>req_out = req,
              sent = [case onError opts of
                        Some callback \<Rightarrow> callback err req
                      | None \<Rightarrow> ProxyDefaultError err],
              proxied = [(target opts, out)], flow = Ends\<rparr>)"

text \<open>The \<^verbatim>\<open>onError\<close> callback of the auth proxy, by the name of the service.\<close>

definition unavailable :: "string \<Rightarrow> proxy_error \<Rightarrow> request \<Rightarrow> reply" where
  "unavailable name err req = Json 503 (failure (name @ '' service unavailable''))"

subsection \<open>Express dispatch\<close>

text \<open>
  Express matches on the path without the query string, ignoring letter case
  (\<^verbatim>\<open>case sensitive routing\<close> is off by default). A path mounted with
  \<^verbatim>\<open>app.use(prefix, ...)\<close> matches the prefix followed by the end of the path or by a
  slash. A path given to \<^verbatim>\<open>app.get\<close> matches the whole path, with or without one
  trailing slash, and the methods GET and HEAD.
\<close>

definition lower :: "char \<Rightarrow> char" where
  "lower c =
     (case map_of (zip ''ABCDEFGHIJKLMNOPQRSTUVWXYZ'' ''abcdefghijklmnopqrstuvwxyz'') c of
        None \<Rightarrow> c
      | Some d \<Rightarrow> d)"

definition pathname :: "string \<Rightarrow> string" where
  "pathname u = takeWhile (\<lambda>c. c \<noteq> CHR ''?'') u"

definition lowercase :: "string \<Rightarrow> string" where
  "lowercase s = map lower s"

definition mount_match :: "string \<Rightarrow> string \<Rightarrow> bool" where
  "mount_match prefix path =
     (take (length prefix) (lowercase path) = lowercase prefix \<and>
      (case drop (length prefix) path of [] \<Rightarrow> True | c # rest \<Rightarrow> c = CHR ''/''))"

definition route_match :: "string \<Rightarrow> string \<Rightarrow> bool" where
  "route_match p path =
     (if p \<noteq> [] \<and> last p = CHR ''/''
      then lowercase path = lowercase p \<or> lowercase path = lowercase (butlast p)
      else lowercase path = lowercase p \<or> lowercase path = lowercase p @ ''/'')"

datatype layer =
    UseAll handler
  | Use string handler
  | Get string handler
  | UseError handler

fun handler_of :: "layer \<Rightarrow> handler" where
  "handler_of (UseAll h) = h"
| "handler_of (Use prefix h) = h"
| "handler_of (Get p h) = h"
| "handler_of (UseError h) = h"

text \<open>
  Whether a layer takes the request: after a handler has thrown, only error-handling
  middleware (four parameters) does; before that, error handlers are skipped.
\<close>

fun applies :: "layer \<Rightarrow> bool \<Rightarrow> request \<Rightarrow> bool" where
  "applies (UseAll h) failed req = (\<not> failed)"
| "applies (Use prefix h) failed req = (\<not> failed \<and> mount_match prefix (pathname (url req)))"
| "applies (Get p h) failed req =
     (\<not> failed \<and> (req_method req = GET \<or> req_method req = HEAD) \<and>
      route_match p (pathname (url req)))"
| "applies (UseError h) failed req = failed"

record outcome =
  replies :: "reply list"
  upstream_calls :: "(string \<times> outgoing) list"

definition after :: "stage \<Rightarrow> outcome \<Rightarrow> outcome" where
  "after s rest =
     \<lparr>replies = sent s @ replies rest, upstream_calls = proxied s @ upstream_calls rest\<rparr>"

fun handle :: "layer list \<Rightarrow> bool \<Rightarrow> request \<Rightarrow> outcome" where
  "handle [] failed req = \<lparr>replies = [ExpressFinal failed], upstream_calls = []\<rparr>"
| "handle (l # ls) failed req =
     (if applies l failed req then
        (let s = handler_of l req in
         case flow s of
           Ends \<Rightarrow> \<lparr>replies = sent s, upstream_calls = proxied s\<rparr>
         | CallsNext \<Rightarrow> after s (handle ls False (req_out s))
         | Throws \<Rightarrow> after s (handle ls True (req_out s)))
      else handle ls failed req)"

text \<open>\<^verbatim>\<open>app.use(prefix, h1, h2)\<close> registers one layer per handler, in order.\<close>

definition use :: "string \<Rightarrow> handler list \<Rightarrow> layer list" where
  "use prefix hs = map (Use prefix) hs"

subsection \<open>The application\<close>

definition app :: "world \<Rightarrow> layer list" where
  "app w =
     [UseAll cors,
      UseAll requestLogger,
      Get ''/api/health'' (health (now w))]
     @ use ''/api/auth''
         [createProxyMiddleware (connect w)
            \<lparr>target = SERVICES (process_env w) AUTH, changeOrigin = True,
             pathRewrite = (''/api/auth'', []),
             onError = Some (unavailable ''Auth'')\<rparr>]
     @ use ''/api/users''
         [verifyToken (jwt_verify w) (JWT_SECRET (process_env w)),
          createProxyMiddleware (connect w)
            \<lparr>target = SERVICES (process_env w) USER, changeOrigin = True,
             pathRewrite = (''/api/users'', []), onError = None\<rparr>]
     @ use ''/api/products''
         [verifyToken (jwt_verify w) (JWT_SECRET (process_env w)),
          createProxyMiddleware (connect w)
            \<lparr>target = SERVICES (process_env w) PRODUCT, changeOrigin = True,
             pathRewrite = (''/api/products'', []), onError = None\<rparr>]
     @ use ''/api/providers''
         [verifyToken (jwt_verify w) (JWT_SECRET (process_env w)),
          createProxyMiddleware (connect w)
            \<lparr>target = SERVICES (process_env w) PROVIDER, changeOrigin = True,
             pathRewrite = (''/api/providers'', []), onError = None\<rparr>]
     @ use ''/api/trust''
         [verifyToken (jwt_verify w) (JWT_SECRET (process_env w)),
          createProxyMiddleware (connect w)
            \<lparr>target = SERVICES (process_env w) TRUST, changeOrigin = True,
             pathRewrite = (''/api/trust'', []), onError = None\<rparr>]
     @ use ''/api/messages''
         [verifyToken (jwt_verify w) (JWT_SECRET (process_env w)),
          createProxyMiddleware (connect w)
            \<lparr>target = SERVICES (process_env w) MESSAGE, changeOrigin = True,
             pathRewrite = (''/api/messages'', []), onError = None\<rparr>]
     @ use ''/api/notifications''
         [verifyToken (jwt_verify w) (JWT_SECRET (process_env w)),
          createProxyMiddleware (connect w)
            \<lparr>target = SERVICES (process_env w) NOTIFICATION, changeOrigin = True,
             pathRewrite = (''/api/notifications'', []), onError = None\<rparr>]
     @ [Get ''/'' root,
        UseAll notFound,
        UseError errorHandler]"

definition gateway :: "world \<Rightarrow> request \<Rightarrow> outcome" where
  "gateway w req = handle (app w) False req"

text \<open>The routes of the table above that require a token, with their upstreams.\<close>

definition protected_routes :: "(string \<times> service) list" where
  "protected_routes =
     [(''/api/users'', USER), (''/api/products'', PRODUCT), (''/api/providers'', PROVIDER),
      (''/api/trust'', TRUST), (''/api/messages'', MESSAGE),
      (''/api/notifications'', NOTIFICATION)]"

definition route_prefixes :: "string list" where
  "route_prefixes = ''/api/auth'' # map fst protected_routes"

subsection \<open>Sample worlds and requests\<close>

text \<open>
  A stand-in for \<^verbatim>\<open>jwt.verify\<close> under the default secret, used to run the gateway on
  concrete requests: \<open>alice\<close> is a valid token with both identity claims, \<open>noclaims\<close> a
  valid token whose payload has neither (\<^verbatim>\<open>jwt.sign({}, secret)\<close>), \<open>expired\<close> a token past
  its expiry, \<open>forged\<close> a token signed under another secret.
\<close>

definition sample_verify :: verifier where
  "sample_verify t secret =
     (if secret \<noteq> ''dev-secret-key'' then Inl (JsonWebTokenError ''invalid signature'')
      else if t = ''alice'' then
        Inr (Claims [(''userId'', JStr ''u-1''), (''email'', JStr ''alice@example.com''),
                     (''iat'', JNum 1700000000)])
      else if t = ''noclaims'' then Inr (Claims [(''iat'', JNum 1700000000)])
      else if t = ''expired'' then Inl TokenExpiredError
      else if t = ''forged'' then Inl (JsonWebTokenError ''invalid signature'')
      else Inl (JsonWebTokenError ''jwt malformed''))"

definition ok_response :: upstream_response where
  "ok_response = \<lparr>up_status = 200, up_headers = [], up_body = ''ok''\<rparr>"

text \<open>One world in which every upstream answers, one in which none can be reached.\<close>

definition world_up :: world where
  "world_up =
     \<lparr>process_env = Map.empty, jwt_verify = sample_verify,
      connect = (\<lambda>target out. Inr ok_response), now = ''2024-01-01T00:00:00.000Z''\<rparr>"

definition world_down :: world where
  "world_down =
     \<lparr>process_env = Map.empty, jwt_verify = sample_verify,
      connect = (\<lambda>target out. Inl ECONNREFUSED), now = ''2024-01-01T00:00:00.000Z''\<rparr>"

definition sample_request :: "http_method \<Rightarrow> string \<Rightarrow> (string \<times> string) list \<Rightarrow> request" where
  "sample_request m u hs =
     \<lparr>req_method = m, url = u, headers = map_of (map (\<lambda>(k, v). (k, JStr v)) hs), user = None\<rparr>"

text \<open>The request with its Authorization header set to the given value.\<close>

definition with_authorization :: "string \<Rightarrow> request \<Rightarrow> request" where
  "with_authorization hv req = req\<lparr>headers := (headers req)(''authorization'' \<mapsto> JStr hv)\<rparr>"

section \<open>Properties\<close>

subsection \<open>Routes exclude one another\<close>

text \<open>
  A path is under at most one of the seven prefixes, and a path under one of them is
  neither \<^verbatim>\<open>/api/health\<close> nor the root: whichever layer of the application takes a
  request, no earlier layer with a path does.
\<close>

lemma length_lowercase: "length (lowercase s) = length s"
  by (simp add: lowercase_def)

lemma lowercase_prefixes:
  "lowercase ''/api/auth'' = ''/api/auth''"
  "lowercase ''/api/users'' = ''/api/users''"
  "lowercase ''/api/products'' = ''/api/products''"
  "lowercase ''/api/providers'' = ''/api/providers''"
  "lowercase ''/api/trust'' = ''/api/trust''"
  "lowercase ''/api/messages'' = ''/api/messages''"
  "lowercase ''/api/notifications'' = ''/api/notifications''"
  "lowercase ''/api/health'' = ''/api/health''"
  "lowercase ''/'' = ''/''"
  "lowercase [] = []"
  by (simp_all add: lowercase_def lower_def)

lemma mount_overlap:
  assumes "mount_match p path" and "mount_match q path" and "length p \<le> length q"
  shows "take (length p) (lowercase q) = lowercase p"
proof -
  have "take (length p) (lowercase q) = take (length p) (take (length q) (lowercase path))"
    using assms(2) by (simp add: mount_match_def)
  also have "\<dots> = take (length p) (lowercase path)"
    using assms(3) by (simp add: min_def)
  also have "\<dots> = lowercase p"
    using assms(1) by (simp add: mount_match_def)
  finally show ?thesis .
qed

lemma route_prefixes_cases:
  assumes "p \<in> set route_prefixes"
  shows "p = ''/api/auth'' \<or> p = ''/api/users'' \<or> p = ''/api/products'' \<or> p = ''/api/providers''
       \<or> p = ''/api/trust'' \<or> p = ''/api/messages'' \<or> p = ''/api/notifications''"
  using assms by (simp add: route_prefixes_def protected_routes_def)

lemma overlap_only_equal:
  assumes "p \<in> set route_prefixes" and "q \<in> set route_prefixes"
    and "take (length p) (lowercase q) = lowercase p"
  shows "p = q"
  using route_prefixes_cases [OF assms(1)] route_prefixes_cases [OF assms(2)] assms(3)
  by (elim disjE) (simp_all add: lowercase_prefixes)

lemma routes_exclusive:
  assumes "p \<in> set route_prefixes" and "q \<in> set route_prefixes"
    and "mount_match p path" and "mount_match q path"
  shows "p = q"
proof (cases "length p \<le> length q")
  case True
  then show ?thesis
    using overlap_only_equal [OF assms(1,2)] mount_overlap [OF assms(3,4)] by simp
next
  case False
  then have "length q \<le> length p" by simp
  then show ?thesis
    using overlap_only_equal [OF assms(2,1)] mount_overlap [OF assms(4,3)] by simp
qed

lemma take_of_either:
  assumes "take n lp = a" and "lp = b \<or> lp = c"
  shows "take n b = a \<or> take n c = a"
  using assms by auto

lemma health_not_mounted:
  assumes "p \<in> set route_prefixes" and "mount_match p path"
  shows "\<not> route_match ''/api/health'' path"
proof
  assume "route_match ''/api/health'' path"
  then have "lowercase path = ''/api/health'' \<or> lowercase path = ''/api/health/''"
    by (simp add: route_match_def lowercase_prefixes)
  moreover have "take (length p) (lowercase path) = lowercase p"
    using assms(2) by (simp add: mount_match_def)
  ultimately have "take (length p) ''/api/health'' = lowercase p
      \<or> take (length p) ''/api/health/'' = lowercase p"
    by (rule take_of_either [rotated])
  then show False
    using route_prefixes_cases [OF assms(1)]
    by (elim disjE) (simp_all add: lowercase_prefixes)
qed

lemma root_not_mounted:
  assumes "p \<in> set route_prefixes" and "mount_match p path"
  shows "\<not> route_match ''/'' path"
proof
  assume "route_match ''/'' path"
  then have "lowercase path = ''/'' \<or> lowercase path = []"
    by (simp add: route_match_def lowercase_prefixes)
  moreover have "take (length p) (lowercase path) = lowercase p"
    using assms(2) by (simp add: mount_match_def)
  ultimately have "take (length p) ''/'' = lowercase p \<or> take (length p) [] = lowercase p"
    by (rule take_of_either [rotated])
  then show False
    using route_prefixes_cases [OF assms(1)]
    by (elim disjE) (simp_all add: lowercase_prefixes)
qed

lemma verifyToken_url [simp]: "url (req_out (verifyToken v s req)) = url req"
  by (simp add: verifyToken_def throw_def respond_def call_next_def
      split: sum.splits option.splits)

lemma verifyToken_method [simp]: "req_method (req_out (verifyToken v s req)) = req_method req"
  by (simp add: verifyToken_def throw_def respond_def call_next_def
      split: sum.splits option.splits)

lemma proxy_ends [simp]: "flow (createProxyMiddleware net opts req) = Ends"
  by (simp add: createProxyMiddleware_def Let_def split: sum.splits)

lemma others_unmatched:
  assumes "p \<in> set route_prefixes" and "mount_match p path"
    and "q \<in> set route_prefixes" and "q \<noteq> p"
  shows "mount_match q path = False"
  using routes_exclusive [OF assms(3) assms(1) _ assms(2)] assms(4) by blast

lemma in_route_prefixes:
  "''/api/auth'' \<in> set route_prefixes"
  "''/api/users'' \<in> set route_prefixes"
  "''/api/products'' \<in> set route_prefixes"
  "''/api/providers'' \<in> set route_prefixes"
  "''/api/trust'' \<in> set route_prefixes"
  "''/api/messages'' \<in> set route_prefixes"
  "''/api/notifications'' \<in> set route_prefixes"
  by (simp_all add: route_prefixes_def protected_routes_def)

lemma protected_in_prefixes: "(p, svc) \<in> set protected_routes \<Longrightarrow> p \<in> set route_prefixes"
  by (force simp: route_prefixes_def)

subsection \<open>Walking the layers\<close>

text \<open>
  One step of the dispatch for each kind of layer, and the two handlers of a protected
  route taken together: the proxy always ends the request, and after a throw only the
  error handler at the end of the application runs.
\<close>

lemma after_call_next [simp]: "after (call_next r) out = out"
  by (simp add: after_def call_next_def)

lemma handle_pass:
  "h req = call_next req \<Longrightarrow> handle (UseAll h # ls) False req = handle ls False req"
  by (simp add: Let_def call_next_def after_def)

lemma handle_use_skip:
  "mount_match p (pathname (url req)) = False \<Longrightarrow> handle (Use p h # ls) False req = handle ls False req"
  by simp

lemma handle_get_skip:
  "route_match p (pathname (url req)) = False \<Longrightarrow> handle (Get p h # ls) False req = handle ls False req"
  by simp


lemma handle_failed_skip:
  "handle (UseAll h # ls) True req = handle ls True req"
  "handle (Use p h # ls) True req = handle ls True req"
  "handle (Get p h # ls) True req = handle ls True req"
  by simp_all

lemma handle_failed_error:
  "handle (UseError errorHandler # ls) True req =
     \<lparr>replies = [Json 500 (failure ''Internal server error'')], upstream_calls = []\<rparr>"
  by (simp add: errorHandler_def respond_def)

lemma cors_passes: "req_method req \<noteq> OPTIONS \<Longrightarrow> cors req = call_next req"
  by (simp add: cors_def)

lemma chain_local:
  assumes m: "mount_match p (pathname (url req))"
    and u: "url (req_out (vt req)) = url req"
    and e: "flow (px (req_out (vt req))) = Ends"
    and t: "handle rest True (req_out (vt req)) =
              \<lparr>replies = [Json 500 (failure ''Internal server error'')], upstream_calls = []\<rparr>"
  shows "handle (Use p vt # Use p px # rest) False req =
     (case flow (vt req) of
        Ends \<Rightarrow> \<lparr>replies = sent (vt req), upstream_calls = proxied (vt req)\<rparr>
      | CallsNext \<Rightarrow>
          after (vt req)
            \<lparr>replies = sent (px (req_out (vt req))),
             upstream_calls = proxied (px (req_out (vt req)))\<rparr>
      | Throws \<Rightarrow>
          after (vt req)
            \<lparr>replies = [Json 500 (failure ''Internal server error'')], upstream_calls = []\<rparr>)"
  using m u e t by (cases "flow (vt req)") (simp_all add: Let_def)

text \<open>
  The whole application on a request under a protected prefix, other than OPTIONS: only
  \<^verbatim>\<open>verifyToken\<close> and, if it calls \<^verbatim>\<open>next()\<close>, the proxy of that route act on it.
\<close>

lemma protected_routes_cases:
  assumes "(p, svc) \<in> set protected_routes"
  shows "(p = ''/api/users'' \<and> svc = USER) \<or> (p = ''/api/products'' \<and> svc = PRODUCT)
       \<or> (p = ''/api/providers'' \<and> svc = PROVIDER) \<or> (p = ''/api/trust'' \<and> svc = TRUST)
       \<or> (p = ''/api/messages'' \<and> svc = MESSAGE)
       \<or> (p = ''/api/notifications'' \<and> svc = NOTIFICATION)"
  using assms by (simp add: protected_routes_def)

lemma gateway_protected:
  assumes route: "(prefix, svc) \<in> set protected_routes"
    and match: "mount_match prefix (pathname (url req))"
    and meth: "req_method req \<noteq> OPTIONS"
  shows "gateway w req =
     (let vt = verifyToken (jwt_verify w) (JWT_SECRET (process_env w)) req;
          px = createProxyMiddleware (connect w)
                 \<lparr>target = SERVICES (process_env w) svc, changeOrigin = True,
                  pathRewrite = (prefix, []), onError = None\<rparr> (req_out vt)
      in case flow vt of
           Ends \<Rightarrow> \<lparr>replies = sent vt, upstream_calls = proxied vt\<rparr>
         | CallsNext \<Rightarrow> after vt \<lparr>replies = sent px, upstream_calls = proxied px\<rparr>
         | Throws \<Rightarrow>
             after vt
               \<lparr>replies = [Json 500 (failure ''Internal server error'')],
                upstream_calls = []\<rparr>)"
proof -
  have pre: "prefix \<in> set route_prefixes"
    using route by (rule protected_in_prefixes)
  have skip: "\<And>q. q \<in> set route_prefixes \<Longrightarrow> q \<noteq> prefix \<Longrightarrow>
      mount_match q (pathname (url req)) = False"
    using others_unmatched [OF pre match] by blast
  have nh: "route_match ''/api/health'' (pathname (url req)) = False"
    using health_not_mounted [OF pre match] by simp
  show ?thesis
    using protected_routes_cases [OF route]
  proof (elim disjE conjE)
    assume p: "prefix = ''/api/users''" and s: "svc = USER"
    have m: "mount_match ''/api/users'' (pathname (url req))"
      using match by (simp only: p)
    have sk: "\<And>q. q \<in> set route_prefixes \<Longrightarrow> q \<noteq> ''/api/users'' \<Longrightarrow>
        mount_match q (pathname (url req)) = False"
      using skip by (simp only: p)
    show ?thesis
      unfolding p s gateway_def app_def use_def
      apply (simp del: handle.simps
          add: handle_pass cors_passes [OF meth] requestLogger_def handle_get_skip [OF nh])
      apply (simp del: handle.simps add: handle_use_skip in_route_prefixes sk)
      apply (simp del: handle.simps
          add: chain_local m handle_failed_skip handle_failed_error Let_def)
      done
  next
    assume p: "prefix = ''/api/products''" and s: "svc = PRODUCT"
    have m: "mount_match ''/api/products'' (pathname (url req))"
      using match by (simp only: p)
    have sk: "\<And>q. q \<in> set route_prefixes \<Longrightarrow> q \<noteq> ''/api/products'' \<Longrightarrow>
        mount_match q (pathname (url req)) = False"
      using skip by (simp only: p)
    show ?thesis
      unfolding p s gateway_def app_def use_def
      apply (simp del: handle.simps
          add: handle_pass cors_passes [OF meth] requestLogger_def handle_get_skip [OF nh])
      apply (simp del: handle.simps add: handle_use_skip in_route_prefixes sk)
      apply (simp del: handle.simps
          add: chain_local m handle_failed_skip handle_failed_error Let_def)
      done
  next
    assume p: "prefix = ''/api/providers''" and s: "svc = PROVIDER"
    have m: "mount_match ''/api/providers'' (pathname (url req))"
      using match by (simp only: p)
    have sk: "\<And>q. q \<in> set route_prefixes \<Longrightarrow> q \<noteq> ''/api/providers'' \<Longrightarrow>
        mount_match q (pathname (url req)) = False"
      using skip by (simp only: p)
    show ?thesis
      unfolding p s gateway_def app_def use_def
      apply (simp del: handle.simps
          add: handle_pass cors_passes [OF meth] requestLogger_def handle_get_skip [OF nh])
      apply (simp del: handle.simps add: handle_use_skip in_route_prefixes sk)
      apply (simp del: handle.simps
          add: chain_local m handle_failed_skip handle_failed_error Let_def)
      done
  next
    assume p: "prefix = ''/api/trust''" and s: "svc = TRUST"
    have m: "mount_match ''/api/trust'' (pathname (url req))"
      using match by (simp only: p)
    have sk: "\<And>q. q \<in> set route_prefixes \<Longrightarrow> q \<noteq> ''/api/trust'' \<Longrightarrow>
        mount_match q (pathname (url req)) = False"
      using skip by (simp only: p)
    show ?thesis
      unfolding p s gateway_def app_def use_def
      apply (simp del: handle.simps
          add: handle_pass cors_passes [OF meth] requestLogger_def handle_get_skip [OF nh])
      apply (simp del: handle.simps add: handle_use_skip in_route_prefixes sk)
      apply (simp del: handle.simps
          add: chain_local m handle_failed_skip handle_failed_error Let_def)
      done
  next
    assume p: "prefix = ''/api/messages''" and s: "svc = MESSAGE"
    have m: "mount_match ''/api/messages'' (pathname (url req))"
      using match by (simp only: p)
    have sk: "\<And>q. q \<in> set route_prefixes \<Longrightarrow> q \<noteq> ''/api/messages'' \<Longrightarrow>
        mount_match q (pathname (url req)) = False"
      using skip by (simp only: p)
    show ?thesis
      unfolding p s gateway_def app_def use_def
      apply (simp del: handle.simps
          add: handle_pass cors_passes [OF meth] requestLogger_def handle_get_skip [OF nh])
      apply (simp del: handle.simps add: handle_use_skip in_route_prefixes sk)
      apply (simp del: handle.simps
          add: chain_local m handle_failed_skip handle_failed_error Let_def)
      done
  next
    assume p: "prefix = ''/api/notifications''" and s: "svc = NOTIFICATION"
    have m: "mount_match ''/api/notifications'' (pathname (url req))"
      using match by (simp only: p)
    have sk: "\<And>q. q \<in> set route_prefixes \<Longrightarrow> q \<noteq> ''/api/notifications'' \<Longrightarrow>
        mount_match q (pathname (url req)) = False"
      using skip by (simp only: p)
    show ?thesis
      unfolding p s gateway_def app_def use_def
      apply (simp del: handle.simps
          add: handle_pass cors_passes [OF meth] requestLogger_def handle_get_skip [OF nh])
      apply (simp del: handle.simps add: handle_use_skip in_route_prefixes sk)
      apply (simp del: handle.simps
          add: chain_local m handle_failed_skip handle_failed_error Let_def)
      done
  qed
qed

subsection \<open>The cases of verifyToken\<close>

lemma split_nonempty: "split sep s \<noteq> []"
  by (cases s) (auto split: list.splits)

lemma split_no_sep: "sep \<notin> set s \<Longrightarrow> split sep s = [s]"
  by (induction s) auto

lemma split_append: "sep \<notin> set s \<Longrightarrow> split sep (s @ sep # t) = s # split sep t"
  by (induction s) auto

lemma hd_split: "hd (split sep t) = takeWhile (\<lambda>c. c \<noteq> sep) t"
  by (induction t) (auto split: list.splits simp: split_nonempty)

lemma second_field:
  assumes "sep \<notin> set s"
  shows "at_index (split sep (s @ sep # t)) 1 = Some (takeWhile (\<lambda>c. c \<noteq> sep) t)"
proof -
  obtain w ws where "split sep t = w # ws"
    using split_nonempty [of sep t] by (cases "split sep t") auto
  then show ?thesis
    using hd_split [of sep t] by (simp add: at_index_def split_append [OF assms])
qed



lemma verifyToken_valid:
  assumes "token req = Inr (Some t)" and "t \<noteq> []" and "v t k = Inr decoded"
  shows "verifyToken v k req =
     call_next
       (req\<lparr>user := Some decoded,
            headers := (headers req)
              (''x-user-id'' \<mapsto> claim decoded ''userId'',
               ''x-user-email'' \<mapsto> claim decoded ''email'')\<rparr>)"
  using assms by (simp add: verifyToken_def)


subsection \<open>Preflights, the auth route and unreachable upstreams\<close>


lemma proxied_proxy:
  "proxied (createProxyMiddleware net opts r) =
     [(target opts,
       \<lparr>out_method = req_method r,
        out_url = rewritePath (pathRewrite opts) (url r),
        out_headers =
          (if changeOrigin opts
           then (headers r)(''host'' \<mapsto> JStr (url_host (target opts)))
           else headers r)\<rparr>)]"
  by (simp add: createProxyMiddleware_def Let_def split: sum.splits)

text \<open>
  The public auth route, and what each kind of route replies when its upstream cannot be
  reached: the auth proxy has an \<^verbatim>\<open>onError\<close> callback, the six protected proxies have
  none. The last two facts give the method and the url sent upstream.
\<close>

lemma gateway_auth:
  assumes match: "mount_match ''/api/auth'' (pathname (url req))"
    and meth: "req_method req \<noteq> OPTIONS"
  shows "gateway w req =
     (let px = createProxyMiddleware (connect w)
                 \<lparr>target = SERVICES (process_env w) AUTH, changeOrigin = True,
                  pathRewrite = (''/api/auth'', []),
                  onError = Some (unavailable ''Auth'')\<rparr> req
      in \<lparr>replies = sent px, upstream_calls = proxied px\<rparr>)"
proof -
  have nh: "route_match ''/api/health'' (pathname (url req)) = False"
    using health_not_mounted [OF in_route_prefixes(1) match] by simp
  show ?thesis
    unfolding gateway_def app_def use_def
    apply (simp del: handle.simps
        add: handle_pass cors_passes [OF meth] requestLogger_def handle_get_skip [OF nh])
    apply (simp add: match Let_def)
    done
qed

lemma auth_upstream_unreachable:
  assumes match: "mount_match ''/api/auth'' (pathname (url req))"
    and meth: "req_method req \<noteq> OPTIONS"
    and down: "\<And>out. connect w (SERVICES (process_env w) AUTH) out = Inl e"
  shows "replies (gateway w req) = [Json 503 (failure ''Auth service unavailable'')]"
  using down
  by (simp add: gateway_auth [OF match meth] createProxyMiddleware_def unavailable_def Let_def
      del: SERVICES.simps)

lemma protected_upstream_unreachable:
  assumes route: "(prefix, svc) \<in> set protected_routes"
    and match: "mount_match prefix (pathname (url req))"
    and meth: "req_method req \<noteq> OPTIONS"
    and tok: "token req = Inr (Some t)" "t \<noteq> []"
    and valid: "jwt_verify w t (JWT_SECRET (process_env w)) = Inr decoded"
    and down: "\<And>out. connect w (SERVICES (process_env w) svc) out = Inl e"
  shows "replies (gateway w req) = [ProxyDefaultError e]"
  using down
  by (simp add: gateway_protected [OF route match meth] verifyToken_valid
        [where v = "jwt_verify w" and k = "JWT_SECRET (process_env w)", OF tok valid]
      call_next_def after_def createProxyMiddleware_def Let_def)

lemma protected_forwarded_url:
  assumes route: "(prefix, svc) \<in> set protected_routes"
    and match: "mount_match prefix (pathname (url req))"
    and meth: "req_method req \<noteq> OPTIONS"
    and tok: "token req = Inr (Some t)" "t \<noteq> []"
    and valid: "jwt_verify w t (JWT_SECRET (process_env w)) = Inr decoded"
  shows "map (\<lambda>c. (out_method (snd c), out_url (snd c))) (upstream_calls (gateway w req)) =
     [(req_method req,
       if take (length prefix) (url req) = prefix then drop (length prefix) (url req)
       else url req)]"
  by (simp add: gateway_protected [OF route match meth] verifyToken_valid
        [where v = "jwt_verify w" and k = "JWT_SECRET (process_env w)", OF tok valid]
      call_next_def after_def proxied_proxy rewritePath_def)

lemma auth_forwarded_url:
  assumes match: "mount_match ''/api/auth'' (pathname (url req))"
    and meth: "req_method req \<noteq> OPTIONS"
  shows "map (\<lambda>c. (out_method (snd c), out_url (snd c))) (upstream_calls (gateway w req)) =
     [(req_method req,
       if take (length ''/api/auth'') (url req) = ''/api/auth''
       then drop (length ''/api/auth'') (url req)
       else url req)]"
  by (simp add: gateway_auth [OF match meth] proxied_proxy rewritePath_def Let_def)

text \<open>Unfolding everything, to run the gateway on a concrete request.\<close>

lemmas gateway_defs =
  gateway_def app_def use_def cors_def requestLogger_def health_def root_def notFound_def
  errorHandler_def verifyToken_def createProxyMiddleware_def respond_def call_next_def
  throw_def after_def token_def at_index_def claim_def unavailable_def
  rewritePath_def url_host_def mount_match_def route_match_def pathname_def lowercase_def
  lower_def JWT_SECRET_def env_or_def Let_def

lemmas sample_defs =
  sample_request_def sample_verify_def world_up_def world_down_def ok_response_def

subsection \<open>Requests without a token (C1)\<close>




subsection \<open>Invalid and expired tokens (C2)\<close>




subsection \<open>Identity headers (C3)\<close>



subsection \<open>Unreachable upstreams (C4)\<close>

text \<open>
  C4 at its failing input. With every upstream refusing connections,
  \<^verbatim>\<open>GET /api/users/1\<close> with a valid token is answered by the proxy library's built-in
  error handler, because the proxies of the protected routes are created without an
  \<^verbatim>\<open>onError\<close> option; the reply is not the envelope
  \<^verbatim>\<open>503 { success: false, error: 'User service unavailable' }\<close>. The auth proxy, which has
  the callback, answers \<^verbatim>\<open>POST /api/auth/login\<close> with its 503 envelope.
\<close>

theorem protected_proxy_without_onError:
  "replies (gateway world_down
      (sample_request GET ''/api/users/1'' [(''authorization'', ''Bearer alice'')])) =
     [ProxyDefaultError ECONNREFUSED] \<and>
   replies (gateway world_down
      (sample_request GET ''/api/users/1'' [(''authorization'', ''Bearer alice'')])) \<noteq>
     [Json 503 (failure ''User service unavailable'')] \<and>
   replies (gateway world_down (sample_request POST ''/api/auth/login'' [])) =
     [Json 503 (failure ''Auth service unavailable'')]"
  by (simp add: gateway_defs sample_defs)

subsection \<open>The health endpoint (C5)\<close>



subsection \<open>Unmatched paths (C6)\<close>




subsection \<open>Path rewriting (C7)\<close>

text \<open>
  C7 at its failing input. Express routes \<^verbatim>\<open>GET /API/USERS/1?x=2\<close> to the users proxy,
  since mount paths match in any letter case; the \<^verbatim>\<open>pathRewrite\<close> pattern
  \<^verbatim>\<open>^/api/users\<close> is case-sensitive and does not match, so the upstream is sent
  \<^verbatim>\<open>/API/USERS/1?x=2\<close> with the routing prefix still in it. Spelled in lower case, the
  same request is sent as \<^verbatim>\<open>/1?x=2\<close>.
\<close>

theorem uppercase_prefix_not_stripped:
  "mount_match ''/api/users'' (pathname ''/API/USERS/1?x=2'') \<and>
   map (\<lambda>c. (fst c, out_method (snd c), out_url (snd c)))
     (upstream_calls (gateway world_up
        (sample_request GET ''/API/USERS/1?x=2'' [(''authorization'', ''Bearer alice'')]))) =
     [(''http://localhost:5002'', GET, ''/API/USERS/1?x=2'')] \<and>
   map (\<lambda>c. (fst c, out_method (snd c), out_url (snd c)))
     (upstream_calls (gateway world_up
        (sample_request GET ''/api/users/1?x=2'' [(''authorization'', ''Bearer alice'')]))) =
     [(''http://localhost:5002'', GET, ''/1?x=2'')]"
  by (simp add: gateway_defs sample_defs)

subsection \<open>The decoded claims (C8)\<close>

text \<open>
  C8, as amended. Whenever \<^verbatim>\<open>jwt.verify\<close> accepts the token, \<^verbatim>\<open>verifyToken\<close> calls
  \<^verbatim>\<open>next()\<close> without replying, attaches the decoded payload as it is to the request, and
  sets \<^verbatim>\<open>x-user-id\<close> and \<^verbatim>\<open>x-user-email\<close> to the payload's \<^verbatim>\<open>userId\<close> and
  \<^verbatim>\<open>email\<close> properties, which are \<^verbatim>\<open>undefined\<close> when the payload lacks them; it does not
  check that either claim is present.
\<close>

theorem valid_token_passes_as_decoded:
  assumes "token req = Inr (Some t)" and "t \<noteq> []" and "verify t secret = Inr decoded"
  shows "flow (verifyToken verify secret req) = CallsNext \<and>
     sent (verifyToken verify secret req) = [] \<and>
     user (req_out (verifyToken verify secret req)) = Some decoded \<and>
     headers (req_out (verifyToken verify secret req)) ''x-user-id'' =
       Some (claim decoded ''userId'') \<and>
     headers (req_out (verifyToken verify secret req)) ''x-user-email'' =
       Some (claim decoded ''email'')"
  by (simp add: verifyToken_valid [where v = verify and k = secret, OF assms] call_next_def)

text \<open>C8 at \<^verbatim>\<open>GET /api/messages\<close> with a valid token that has both claims.\<close>

theorem valid_token_passes_as_decoded_witness:
  "token (sample_request GET ''/api/messages'' [(''authorization'', ''Bearer alice'')]) =
     Inr (Some ''alice'') \<and>
   flow (verifyToken sample_verify ''dev-secret-key''
          (sample_request GET ''/api/messages'' [(''authorization'', ''Bearer alice'')])) = CallsNext \<and>
   user (req_out (verifyToken sample_verify ''dev-secret-key''
          (sample_request GET ''/api/messages'' [(''authorization'', ''Bearer alice'')]))) =
     Some (Claims [(''userId'', JStr ''u-1''), (''email'', JStr ''alice@example.com''),
                   (''iat'', JNum 1700000000)]) \<and>
   headers (req_out (verifyToken sample_verify ''dev-secret-key''
          (sample_request GET ''/api/messages'' [(''authorization'', ''Bearer alice'')])))
       ''x-user-id'' = Some (JStr ''u-1'')"
  using valid_token_passes_as_decoded
    [where verify = sample_verify and secret = "''dev-secret-key''" and t = "''alice''"
       and req = "sample_request GET ''/api/messages'' [(''authorization'', ''Bearer alice'')]"
       and decoded = "Claims [(''userId'', JStr ''u-1''), (''email'', JStr ''alice@example.com''),
                   (''iat'', JNum 1700000000)]"]
  by (simp add: token_def at_index_def sample_request_def sample_verify_def claim_def)

text \<open>
  C8 as first stated says that a decoded claim set always has \<^verbatim>\<open>userId\<close> and
  \<^verbatim>\<open>email\<close>. A correctly signed, unexpired token whose payload is \<^verbatim>\<open>{ iat }\<close> passes
  \<^verbatim>\<open>verifyToken\<close>: \<^verbatim>\<open>next()\<close> is called, the payload without the two claims is
  attached, and both identity headers are set to \<^verbatim>\<open>undefined\<close>.
\<close>

theorem token_without_claims_passes:
  "sample_verify ''noclaims'' ''dev-secret-key'' = Inr (Claims [(''iat'', JNum 1700000000)]) \<and>
   flow (verifyToken sample_verify ''dev-secret-key''
          (sample_request GET ''/api/users/1'' [(''authorization'', ''Bearer noclaims'')])) = CallsNext \<and>
   user (req_out (verifyToken sample_verify ''dev-secret-key''
          (sample_request GET ''/api/users/1'' [(''authorization'', ''Bearer noclaims'')]))) =
     Some (Claims [(''iat'', JNum 1700000000)]) \<and>
   claim (Claims [(''iat'', JNum 1700000000)]) ''userId'' = JUndefined \<and>
   claim (Claims [(''iat'', JNum 1700000000)]) ''email'' = JUndefined \<and>
   headers (req_out (verifyToken sample_verify ''dev-secret-key''
          (sample_request GET ''/api/users/1'' [(''authorization'', ''Bearer noclaims'')])))
       ''x-user-id'' = Some JUndefined \<and>
   headers (req_out (verifyToken sample_verify ''dev-secret-key''
          (sample_request GET ''/api/users/1'' [(''authorization'', ''Bearer noclaims'')])))
       ''x-user-email'' = Some JUndefined"
  by (simp add: verifyToken_def token_def at_index_def claim_def call_next_def sample_defs)

subsection \<open>The authorization scheme (C9)\<close>

text \<open>
  C9. For every scheme word \<open>s\<close> without a space and every \<open>t\<close>, the header value
  \<open>s t\<close> yields the same token as \<open>Bearer t\<close>, namely the second space-separated field
  of the value (the first field of \<open>t\<close>); and \<^verbatim>\<open>verifyToken\<close> has the same outcome on
  the two requests: the same replies, the same control flow, the same user context and
  the same identity headers.
\<close>

theorem scheme_word_ignored:
  assumes "CHR '' '' \<notin> set s"
  shows "token (with_authorization (s @ '' '' @ t) req) =
       Inr (Some (takeWhile (\<lambda>c. c \<noteq> CHR '' '') t)) \<and>
     token (with_authorization (s @ '' '' @ t) req) =
       token (with_authorization (''Bearer '' @ t) req) \<and>
     sent (verifyToken verify secret (with_authorization (s @ '' '' @ t) req)) =
       sent (verifyToken verify secret (with_authorization (''Bearer '' @ t) req)) \<and>
     flow (verifyToken verify secret (with_authorization (s @ '' '' @ t) req)) =
       flow (verifyToken verify secret (with_authorization (''Bearer '' @ t) req)) \<and>
     user (req_out (verifyToken verify secret (with_authorization (s @ '' '' @ t) req))) =
       user (req_out (verifyToken verify secret (with_authorization (''Bearer '' @ t) req))) \<and>
     headers (req_out (verifyToken verify secret (with_authorization (s @ '' '' @ t) req)))
         ''x-user-id'' =
       headers (req_out (verifyToken verify secret (with_authorization (''Bearer '' @ t) req)))
         ''x-user-id'' \<and>
     headers (req_out (verifyToken verify secret (with_authorization (s @ '' '' @ t) req)))
         ''x-user-email'' =
       headers (req_out (verifyToken verify secret (with_authorization (''Bearer '' @ t) req)))
         ''x-user-email''"
proof -
  let ?field = "takeWhile (\<lambda>c. c \<noteq> CHR '' '') t"
  have a: "token (with_authorization (s @ '' '' @ t) req) = Inr (Some ?field)"
    using second_field [OF assms, of t] by (simp add: token_def with_authorization_def)
  have "CHR '' '' \<notin> set ''Bearer''" by simp
  then have b: "token (with_authorization (''Bearer '' @ t) req) = Inr (Some ?field)"
    using second_field [of "CHR '' ''" "''Bearer''" t]
    by (simp add: token_def with_authorization_def)
  show ?thesis
    unfolding verifyToken_def a b
    by (simp add: respond_def call_next_def with_authorization_def split: sum.splits)
qed

text \<open>C9 at the header \<^verbatim>\<open>Authorization: Token alice\<close>.\<close>

theorem scheme_word_ignored_witness:
  "token (with_authorization ''Token alice'' (sample_request GET ''/api/users'' [])) =
     Inr (Some ''alice'') \<and>
   token (with_authorization ''Bearer alice'' (sample_request GET ''/api/users'' [])) =
     Inr (Some ''alice'') \<and>
   flow (verifyToken sample_verify ''dev-secret-key''
          (with_authorization ''Token alice'' (sample_request GET ''/api/users'' []))) =
     flow (verifyToken sample_verify ''dev-secret-key''
          (with_authorization ''Bearer alice'' (sample_request GET ''/api/users'' []))) \<and>
   user (req_out (verifyToken sample_verify ''dev-secret-key''
          (with_authorization ''Token alice'' (sample_request GET ''/api/users'' [])))) =
     user (req_out (verifyToken sample_verify ''dev-secret-key''
          (with_authorization ''Bearer alice'' (sample_request GET ''/api/users'' []))))"
  using scheme_word_ignored
    [where s = "''Token''" and t = "''alice''" and verify = sample_verify
       and secret = "''dev-secret-key''" and req = "sample_request GET ''/api/users'' []"]
  by auto

subsection \<open>Rejected requests (C10)\<close>

text \<open>
  C10. Whenever \<^verbatim>\<open>verifyToken\<close> writes a reply \<open>r\<close>, it leaves the request object as it
  was (no user context, no identity header), \<open>r\<close> is its only reply and is the 401 or the
  403 envelope, it sends nothing upstream and does not call \<^verbatim>\<open>next()\<close>; mounted on a
  route, the layers after it do not run.
\<close>

theorem rejected_request_untouched:
  assumes "r \<in> set (sent (verifyToken verify secret req))"
  shows "req_out (verifyToken verify secret req) = req \<and>
     sent (verifyToken verify secret req) = [r] \<and>
     proxied (verifyToken verify secret req) = [] \<and>
     flow (verifyToken verify secret req) = Ends \<and>
     (r = Json 401 (failure ''No token provided'') \<or>
      r = Json 403 (failure ''Invalid or expired token'')) \<and>
     (mount_match p (pathname (url req)) \<longrightarrow>
        handle (Use p (verifyToken verify secret) # ls) False req =
          \<lparr>replies = [r], upstream_calls = []\<rparr>)"
  using assms
  by (auto simp: verifyToken_def respond_def call_next_def throw_def Let_def
      split: sum.splits option.splits if_splits)

text \<open>C10 at \<^verbatim>\<open>GET /api/users/1\<close> with an expired token.\<close>

theorem rejected_request_untouched_witness:
  "req_out (verifyToken sample_verify ''dev-secret-key''
      (sample_request GET ''/api/users/1'' [(''authorization'', ''Bearer expired'')])) =
     sample_request GET ''/api/users/1'' [(''authorization'', ''Bearer expired'')] \<and>
   sent (verifyToken sample_verify ''dev-secret-key''
      (sample_request GET ''/api/users/1'' [(''authorization'', ''Bearer expired'')])) =
     [Json 403 (failure ''Invalid or expired token'')] \<and>
   flow (verifyToken sample_verify ''dev-secret-key''
      (sample_request GET ''/api/users/1'' [(''authorization'', ''Bearer expired'')])) = Ends"
proof -
  let ?R = "sample_request GET ''/api/users/1'' [(''authorization'', ''Bearer expired'')]"
  have "Json 403 (failure ''Invalid or expired token'') \<in>
      set (sent (verifyToken sample_verify ''dev-secret-key'' ?R))"
    by (simp add: verifyToken_def token_def at_index_def sample_request_def sample_verify_def
        respond_def)
  from rejected_request_untouched [OF this] show ?thesis
    by simp
qed

end
